theory Spec2Isabelle
  imports Main
begin

section \<open>Numbers and text\<close>

text \<open>
  The program is \<^verbatim>\<open>src/index.js\<close>, a work-timer server with seven tool handlers
  over one in-memory object \<^verbatim>\<open>timers\<close>.

  Every JavaScript Number the handlers compute is a millisecond timestamp, a difference of
  two of them, or a quotient or remainder of such a difference: an integer far below
  \<open>2^53\<close>, where Number arithmetic is exact. Such a Number is an \<open>int\<close> here. The one
  other Number that occurs is \<^verbatim>\<open>NaN\<close>, the result of subtracting \<^verbatim>\<open>undefined\<close>.
\<close>

datatype number = NaN | Finite int

text \<open>\<^verbatim>\<open>now - x.startTime\<close>: the start time is a Date, or \<^verbatim>\<open>undefined\<close> (\<open>None\<close>).\<close>

fun minus_startTime :: "int \<Rightarrow> int option \<Rightarrow> number" where
  "minus_startTime now None = NaN"
| "minus_startTime now (Some t) = Finite (now - t)"

text \<open>The remainder operator \<^verbatim>\<open>%\<close> truncates: the result has the sign of the dividend.\<close>

definition js_rem :: "int \<Rightarrow> int \<Rightarrow> int" where
  "js_rem a b = sgn a * (\<bar>a\<bar> mod \<bar>b\<bar>)"

definition digit_char :: "nat \<Rightarrow> char" where
  "digit_char d = ''0123456789'' ! d"

fun digits :: "nat \<Rightarrow> string" where
  "digits n = (if n < 10 then [digit_char n] else digits (n div 10) @ [digit_char (n mod 10)])"

declare digits.simps [simp del]

text \<open>An integer Number inside a template literal: decimal digits, with a minus sign.\<close>

definition number_text :: "int \<Rightarrow> string" where
  "number_text n = (if n < 0 then CHR ''-'' # digits (nat (- n)) else digits (nat n))"

text \<open>\<^verbatim>\<open>parts.join(sep)\<close>\<close>

fun join :: "string \<Rightarrow> string list \<Rightarrow> string" where
  "join sep [] = []"
| "join sep [x] = x"
| "join sep (x # y # ys) = x @ sep @ join sep (y # ys)"

text \<open>A name between double quotes, as the templates write \<^verbatim>\<open>"${name}"\<close>.\<close>

definition quoted :: "string \<Rightarrow> string" where
  "quoted s = CHR 0x22 # s @ [CHR 0x22]"

section \<open>Elapsed-time formatting\<close>

text \<open>
  \<^verbatim>\<open>formatElapsed(ms)\<close>, lines 15 to 26. On \<^verbatim>\<open>NaN\<close> every intermediate value is
  \<^verbatim>\<open>NaN\<close>, both comparisons with 0 are false, and the one part is \<^verbatim>\<open>NaNs\<close>.
\<close>

fun formatElapsed :: "number \<Rightarrow> string" where
  "formatElapsed NaN = ''NaNs''"
| "formatElapsed (Finite ms) =
     (let totalSeconds = ms div 1000;
          hours = totalSeconds div 3600;
          minutes = js_rem totalSeconds 3600 div 60;
          seconds = js_rem totalSeconds 60;
          parts = (if hours > 0 then [number_text hours @ ''h''] else [])
                @ (if minutes > 0 then [number_text minutes @ ''m''] else [])
                @ [number_text seconds @ ''s'']
      in join '' '' parts)"

text \<open>
  The formatting as the specification words it: whole seconds by floor division, hours
  the floor of the seconds by 3600, minutes the floor of the remainder by 60, seconds the
  remainder; the hours and the minutes segments are left out when zero, the seconds
  segment never.
\<close>

definition spec_formatElapsed :: "int \<Rightarrow> string" where
  "spec_formatElapsed ms =
     (let whole = ms div 1000;
          h = whole div 3600;
          r = whole mod 3600;
          m = r div 60;
          s = r mod 60
      in join '' '' ((if h = 0 then [] else [number_text h @ ''h''])
                   @ (if m = 0 then [] else [number_text m @ ''m''])
                   @ [number_text s @ ''s'']))"

section \<open>The timer object\<close>

text \<open>
  \<^verbatim>\<open>const timers = {}\<close> is a plain object. Its own properties are the running timers;
  a read \<^verbatim>\<open>timers[name]\<close> that finds no own property continues along the prototype
  chain to \<^verbatim>\<open>Object.prototype\<close>.

  A value read from the object is either a timer \<^verbatim>\<open>{ startTime: Date }\<close>, or what a
  property of \<^verbatim>\<open>Object.prototype\<close> yields (a built-in function; for
  \<^verbatim>\<open>__proto__\<close> the prototype object itself). Both are objects, hence truthy; the
  second has no \<^verbatim>\<open>startTime\<close>.
\<close>

datatype entry = Timer int | Builtin string

fun startTime :: "entry \<Rightarrow> int option" where
  "startTime (Timer t) = Some t"
| "startTime (Builtin k) = None"

text \<open>Own properties in the order of their creation.\<close>

type_synonym registry = "(string \<times> entry) list"

definition object_prototype_names :: "string list" where
  "object_prototype_names =
     [''constructor'', ''__defineGetter__'', ''__defineSetter__'', ''hasOwnProperty'',
      ''__lookupGetter__'', ''__lookupSetter__'', ''isPrototypeOf'', ''propertyIsEnumerable'',
      ''toString'', ''valueOf'', ''__proto__'', ''toLocaleString'']"

text \<open>\<^verbatim>\<open>timers[name]\<close>; \<open>None\<close> is \<^verbatim>\<open>undefined\<close>.\<close>

definition lookup :: "registry \<Rightarrow> string \<Rightarrow> entry option" where
  "lookup timers name =
     (case map_of timers name of
        Some e \<Rightarrow> Some e
      | None \<Rightarrow> if name \<in> set object_prototype_names then Some (Builtin name) else None)"

text \<open>
  \<^verbatim>\<open>timers[name] = v\<close>. Every assignment of the source stands behind a read of the same
  key that found nothing, so it creates a new own property, the last in creation order
  (lemma \<open>assign_fresh\<close>); an own property that exists keeps its place.
\<close>

definition assign :: "registry \<Rightarrow> string \<Rightarrow> entry \<Rightarrow> registry" where
  "assign timers name v =
     (if name \<in> set (map fst timers)
      then map (\<lambda>(k, e). if k = name then (k, v) else (k, e)) timers
      else timers @ [(name, v)])"

text \<open>\<^verbatim>\<open>delete timers[name]\<close> removes an own property and nothing else.\<close>

definition delete :: "registry \<Rightarrow> string \<Rightarrow> registry" where
  "delete timers name = filter (\<lambda>(k, e). k \<noteq> name) timers"

text \<open>
  \<^verbatim>\<open>Object.keys(timers)\<close> lists the own keys that are array indices first, in
  ascending numeric order, then the other keys in the order of their creation. An array
  index is the canonical decimal form of an integer from 0 to \<open>2^32 - 2\<close>.
\<close>

definition is_digit :: "char \<Rightarrow> bool" where
  "is_digit c = (c \<in> set ''0123456789'')"

definition digit_value :: "char \<Rightarrow> nat" where
  "digit_value c = of_char c - 48"

definition index_value :: "string \<Rightarrow> nat" where
  "index_value s = foldl (\<lambda>n c. 10 * n + digit_value c) 0 s"

fun is_array_index :: "string \<Rightarrow> bool" where
  "is_array_index [] = False"
| "is_array_index (c # cs) =
     (list_all is_digit (c # cs) \<and> (cs = [] \<or> c \<noteq> CHR ''0'') \<and> index_value (c # cs) \<le> 4294967294)"

definition object_keys :: "registry \<Rightarrow> string list" where
  "object_keys timers =
     (let ks = map fst timers
      in sort_key index_value (filter is_array_index ks) @ filter (\<lambda>k. \<not> is_array_index k) ks)"

text \<open>\<^verbatim>\<open>runningCount()\<close>, line 34.\<close>

definition runningCount :: "registry \<Rightarrow> nat" where
  "runningCount timers = length (object_keys timers)"

text \<open>\<^verbatim>\<open>resolveLabel(label)\<close>, line 30: \<^verbatim>\<open>undefined\<close> and the empty string are falsy.\<close>

fun resolveLabel :: "string option \<Rightarrow> string" where
  "resolveLabel None = ''default''"
| "resolveLabel (Some s) = (if s = [] then ''default'' else s)"

text \<open>
  The argument schemas, lines 28, 146 and 172: a string of at most 30 characters that
  matches \<^verbatim>\<open>/^[a-z0-9_-]+$/\<close>; \<^verbatim>\<open>labelSchema\<close> is optional.
\<close>

definition label_char :: "char \<Rightarrow> bool" where
  "label_char c = (c \<in> set ''abcdefghijklmnopqrstuvwxyz0123456789_-'')"

definition requiredLabelSchema :: "string \<Rightarrow> bool" where
  "requiredLabelSchema s = (length s \<le> 30 \<and> s \<noteq> [] \<and> list_all label_char s)"

fun labelSchema :: "string option \<Rightarrow> bool" where
  "labelSchema None = True"
| "labelSchema (Some s) = requiredLabelSchema s"

section \<open>The tool handlers\<close>

text \<open>
  A handler reads the clock at most once (\<open>now\<close>), reads and writes \<open>timers\<close>, and
  either returns its text or throws. It is a function to the outcome and the object as
  the call leaves it: what a handler deleted before it threw stays deleted.

  \<^verbatim>\<open>Date.prototype.toLocaleTimeString\<close> depends on the host's locale and time zone; it
  is the parameter \<open>localeTime\<close>. Calling it on \<^verbatim>\<open>undefined\<close> throws a TypeError.
\<close>

datatype js_error = TypeError

type_synonym outcome = "(js_error + string) \<times> registry"

text \<open>\<^verbatim>\<open>start_timer\<close>, lines 40 to 58.\<close>

definition start_timer :: "(int \<Rightarrow> string) \<Rightarrow> int \<Rightarrow> registry \<Rightarrow> string option \<Rightarrow> outcome" where
  "start_timer localeTime now timers label =
     (let name = resolveLabel label in
      case lookup timers name of
        Some e \<Rightarrow>
          (case startTime e of
             None \<Rightarrow> (Inl TypeError, timers)
           | Some t \<Rightarrow>
               (Inr (''Timer '' @ quoted name @ '' is already running (started at '' @ localeTime t @ '').''),
                timers))
      | None \<Rightarrow>
          (let timers' = assign timers name (Timer now) in
           case lookup timers' name of
             None \<Rightarrow> (Inl TypeError, timers')
           | Some e' \<Rightarrow>
               (case startTime e' of
                  None \<Rightarrow> (Inl TypeError, timers')
                | Some t \<Rightarrow>
                    (let text = ''Timer '' @ quoted name @ '' started at '' @ localeTime t @ ''.''
                     in (Inr (if runningCount timers' \<ge> 3
                              then text @ ''\<newline>\<newline>Heads up: you now have ''
                                     @ number_text (int (runningCount timers'))
                                     @ '' timers running (''
                                     @ join '', '' (map quoted (object_keys timers'))
                                     @ ''). Did you forget to stop one?''
                              else text),
                         timers')))))"

text \<open>\<^verbatim>\<open>current_timer\<close>, lines 60 to 78.\<close>

definition current_timer :: "(int \<Rightarrow> string) \<Rightarrow> int \<Rightarrow> registry \<Rightarrow> string option \<Rightarrow> outcome" where
  "current_timer localeTime now timers label =
     (let name = resolveLabel label in
      case lookup timers name of
        None \<Rightarrow> (Inr (''No timer named '' @ quoted name @ '' is running.''), timers)
      | Some timer \<Rightarrow>
          (let elapsed = formatElapsed (minus_startTime now (startTime timer)) in
           case startTime timer of
             None \<Rightarrow> (Inl TypeError, timers)
           | Some t \<Rightarrow>
               (Inr (''Timer '' @ quoted name @ '' is running.\<newline>Started:  '' @ localeTime t
                     @ ''\<newline>Elapsed:  '' @ elapsed),
                timers)))"

text \<open>\<^verbatim>\<open>stop_timer\<close>, lines 80 to 100: the entry is deleted before the text is built.\<close>

definition stop_timer :: "(int \<Rightarrow> string) \<Rightarrow> int \<Rightarrow> registry \<Rightarrow> string option \<Rightarrow> outcome" where
  "stop_timer localeTime now timers label =
     (let name = resolveLabel label in
      case lookup timers name of
        None \<Rightarrow> (Inr (''No timer named '' @ quoted name @ '' is running.''), timers)
      | Some timer \<Rightarrow>
          (let endTime = now;
               elapsed = formatElapsed (minus_startTime endTime (startTime timer));
               timers' = delete timers name in
           case startTime timer of
             None \<Rightarrow> (Inl TypeError, timers')
           | Some t \<Rightarrow>
               (Inr (''Timer '' @ quoted name @ '' stopped.\<newline>Started:  '' @ localeTime t
                     @ ''\<newline>Stopped:  '' @ localeTime endTime @ ''\<newline>Elapsed:  '' @ elapsed),
                timers')))"

text \<open>
  \<^verbatim>\<open>list_timers\<close>, lines 102 to 120. \<open>list_line\<close> is the callback of \<^verbatim>\<open>names.map\<close>;
  \<open>map_throwing\<close> is \<^verbatim>\<open>map\<close> with a callback that may throw, which ends the call.
\<close>

definition list_line :: "(int \<Rightarrow> string) \<Rightarrow> int \<Rightarrow> registry \<Rightarrow> string \<Rightarrow> js_error + string" where
  "list_line localeTime now timers name =
     (case lookup timers name of
        None \<Rightarrow> Inl TypeError
      | Some e \<Rightarrow>
          (let elapsed = formatElapsed (minus_startTime now (startTime e)) in
           case startTime e of
             None \<Rightarrow> Inl TypeError
           | Some t \<Rightarrow>
               Inr (''- '' @ quoted name @ ''  started '' @ localeTime t @ ''  ('' @ elapsed @ '')'')))"

fun map_throwing :: "('a \<Rightarrow> js_error + 'b) \<Rightarrow> 'a list \<Rightarrow> js_error + 'b list" where
  "map_throwing f [] = Inr []"
| "map_throwing f (x # xs) =
     (case f x of
        Inl err \<Rightarrow> Inl err
      | Inr y \<Rightarrow> (case map_throwing f xs of Inl err \<Rightarrow> Inl err | Inr ys \<Rightarrow> Inr (y # ys)))"

definition list_timers :: "(int \<Rightarrow> string) \<Rightarrow> int \<Rightarrow> registry \<Rightarrow> outcome" where
  "list_timers localeTime now timers =
     (let names = object_keys timers in
      if length names = 0 then (Inr ''No timers are running.'', timers)
      else case map_throwing (list_line localeTime now timers) names of
             Inl err \<Rightarrow> (Inl err, timers)
           | Inr lines \<Rightarrow>
               (Inr (''Running timers ('' @ number_text (int (length names)) @ ''):\<newline>''
                     @ join ''\<newline>'' lines),
                timers))"

text \<open>
  \<^verbatim>\<open>stop_all_timers\<close>, lines 122 to 142. The callback of \<^verbatim>\<open>names.map\<close> deletes as
  it goes, so \<open>stop_each\<close> threads the object through the names. The arrow of the summary
  line is U+2192, three bytes in UTF-8.
\<close>

definition arrow :: string where
  "arrow = [CHR 0xE2, CHR 0x86, CHR 0x92]"

fun stop_each :: "(int \<Rightarrow> string) \<Rightarrow> int \<Rightarrow> registry \<Rightarrow> string list \<Rightarrow> (js_error + string list) \<times> registry" where
  "stop_each localeTime endTime timers [] = (Inr [], timers)"
| "stop_each localeTime endTime timers (name # names) =
     (case lookup timers name of
        None \<Rightarrow> (Inl TypeError, timers)
      | Some e \<Rightarrow>
          (let elapsed = formatElapsed (minus_startTime endTime (startTime e)) in
           case startTime e of
             None \<Rightarrow> (Inl TypeError, timers)
           | Some t \<Rightarrow>
               (let started = localeTime t;
                    timers' = delete timers name;
                    line = ''- '' @ quoted name @ ''  '' @ started @ '' '' @ arrow @ '' ''
                           @ localeTime endTime @ ''  ('' @ elapsed @ '')''
                in case stop_each localeTime endTime timers' names of
                     (Inl err, timers'') \<Rightarrow> (Inl err, timers'')
                   | (Inr lines, timers'') \<Rightarrow> (Inr (line # lines), timers''))))"

definition stop_all_timers :: "(int \<Rightarrow> string) \<Rightarrow> int \<Rightarrow> registry \<Rightarrow> outcome" where
  "stop_all_timers localeTime now timers =
     (let names = object_keys timers in
      if length names = 0 then (Inr ''No timers are running.'', timers)
      else case stop_each localeTime now timers names of
             (Inl err, timers') \<Rightarrow> (Inl err, timers')
           | (Inr lines, timers') \<Rightarrow>
               (Inr (''Stopped '' @ number_text (int (length lines)) @ '' timer(s):\<newline>''
                     @ join ''\<newline>'' lines),
                timers'))"

text \<open>\<^verbatim>\<open>rename_timer\<close>, lines 144 to 168.\<close>

definition rename_timer :: "registry \<Rightarrow> string option \<Rightarrow> string \<Rightarrow> outcome" where
  "rename_timer timers from to =
     (let oldName = resolveLabel from in
      case lookup timers oldName of
        None \<Rightarrow> (Inr (''No timer named '' @ quoted oldName @ '' is running.''), timers)
      | Some e \<Rightarrow>
          (case lookup timers to of
             Some e' \<Rightarrow>
               (Inr (''A timer named '' @ quoted to
                     @ '' is already running. Stop it first or choose a different name.''),
                timers)
           | None \<Rightarrow>
               (Inr (''Timer renamed from '' @ quoted oldName @ '' to '' @ quoted to @ ''.''),
                delete (assign timers to e) oldName)))"

text \<open>\<^verbatim>\<open>switch_timer\<close>, lines 170 to 194: one \<open>now\<close> for both halves.\<close>

definition switch_timer :: "(int \<Rightarrow> string) \<Rightarrow> int \<Rightarrow> registry \<Rightarrow> string option \<Rightarrow> string \<Rightarrow> outcome" where
  "switch_timer localeTime now timers stop start =
     (let stopName = resolveLabel stop;
          (summary, timers') =
            (case lookup timers stopName of
               Some e \<Rightarrow>
                 (''Stopped '' @ quoted stopName @ '' (''
                    @ formatElapsed (minus_startTime now (startTime e)) @ '').\<newline>'',
                  delete timers stopName)
             | None \<Rightarrow>
                 (''No timer named '' @ quoted stopName @ '' was running.\<newline>'', timers))
      in case lookup timers' start of
           Some e \<Rightarrow>
             (case startTime e of
                None \<Rightarrow> (Inl TypeError, timers')
              | Some t \<Rightarrow>
                  (Inr (summary @ ''Timer '' @ quoted start @ '' is already running (started at ''
                        @ localeTime t @ '').''),
                   timers'))
         | None \<Rightarrow>
             (Inr (summary @ ''Started '' @ quoted start @ '' at '' @ localeTime now @ ''.''),
              assign timers' start (Timer now)))"

text \<open>
  What every reachable object satisfies: the own keys are distinct, and none of them is a
  property name of \<^verbatim>\<open>Object.prototype\<close> (a handler assigns a key only after a read of
  it found nothing).
\<close>

definition registry_ok :: "registry \<Rightarrow> bool" where
  "registry_ok timers =
     (distinct (map fst timers) \<and> list_all (\<lambda>k. k \<notin> set object_prototype_names) (map fst timers))"

text \<open>
  The line \<^verbatim>\<open>list_timers\<close> writes for a timer \<open>name\<close> that started at \<open>t\<close>, and the
  objects all of whose entries are timers.
\<close>

definition timer_line :: "(int \<Rightarrow> string) \<Rightarrow> int \<Rightarrow> string \<Rightarrow> int \<Rightarrow> string" where
  "timer_line localeTime now name t =
     ''- '' @ quoted name @ ''  started '' @ localeTime t @ ''  (''
     @ formatElapsed (Finite (now - t)) @ '')''"

definition timers_only :: "registry \<Rightarrow> bool" where
  "timers_only timers = list_all (\<lambda>(k, e). startTime e \<noteq> None) timers"

section \<open>Elapsed-time formatting: the claims\<close>

lemmas number_eval = number_text_def digits.simps digit_char_def js_rem_def Let_def

lemma js_rem_nonneg: "0 \<le> a \<Longrightarrow> 0 < b \<Longrightarrow> js_rem a b = a mod b"
  by (cases "a = 0") (simp_all add: js_rem_def)

text \<open>
  C2, as the claim states it, fails at one of its five values: an hour with no minutes
  has no minutes segment, since the source pushes that segment only when
  \<^verbatim>\<open>minutes > 0\<close>. So 3600000 ms is not rendered as \<open>1h 0m 0s\<close>.
\<close>

theorem formatElapsed_full_hour_counterexample:
  "formatElapsed (Finite 3600000) \<noteq> ''1h 0m 0s''"
  by (simp add: number_eval)

text \<open>
  C2, amended: the formatting function maps 0 ms to \<open>0s\<close>, 59000 ms to \<open>59s\<close>,
  60000 ms to \<open>1m 0s\<close>, 3600000 ms to \<open>1h 0s\<close> and 3725000 ms to \<open>1h 2m 5s\<close>.
\<close>

theorem formatElapsed_examples:
  "formatElapsed (Finite 0) = ''0s'' \<and>
   formatElapsed (Finite 59000) = ''59s'' \<and>
   formatElapsed (Finite 60000) = ''1m 0s'' \<and>
   formatElapsed (Finite 3600000) = ''1h 0s'' \<and>
   formatElapsed (Finite 3725000) = ''1h 2m 5s''"
  by (simp add: number_eval)

text \<open>
  C3: for every duration (a number of milliseconds that is not negative) the source's
  formatting is the specification's: whole seconds by floor division by 1000, split into
  hours, minutes and seconds, the segments joined by one space, the hours and the minutes
  segments left out when zero and the seconds segment always there. In particular 0 ms
  gives \<open>0s\<close>, 3661000 ms gives \<open>1h 1m 1s\<close> and 65000 ms gives \<open>1m 5s\<close>.
\<close>

theorem formatElapsed_meets_spec:
  "(0 \<le> ms \<longrightarrow> formatElapsed (Finite ms) = spec_formatElapsed ms) \<and>
   formatElapsed (Finite 0) = ''0s'' \<and>
   formatElapsed (Finite 3661000) = ''1h 1m 1s'' \<and>
   formatElapsed (Finite 65000) = ''1m 5s''"
proof -
  have general: "formatElapsed (Finite ms) = spec_formatElapsed ms" if nonneg: "0 \<le> ms"
  proof -
    let ?t = "ms div 1000"
    have t: "0 \<le> ?t" using nonneg by simp
    have h: "0 \<le> ?t div 3600" using t by simp
    have m: "0 \<le> ?t mod 3600 div 60" by simp
    have s: "?t mod 3600 mod 60 = ?t mod 60" by (simp add: mod_mod_cancel)
    have r1: "js_rem ?t 3600 = ?t mod 3600" using t by (simp add: js_rem_nonneg)
    have r2: "js_rem ?t 60 = ?t mod 60" using t by (simp add: js_rem_nonneg)
    have hh: "(0 < ?t div 3600) = (?t div 3600 \<noteq> 0)" using h by linarith
    have mm: "(0 < ?t mod 3600 div 60) = (?t mod 3600 div 60 \<noteq> 0)" using m by linarith
    show ?thesis
      unfolding formatElapsed.simps spec_formatElapsed_def Let_def r1 r2 s hh mm
      by simp
  qed
  have examples: "formatElapsed (Finite 0) = ''0s'' \<and>
      formatElapsed (Finite 3661000) = ''1h 1m 1s'' \<and>
      formatElapsed (Finite 65000) = ''1m 5s''"
    by (simp add: number_eval)
  from general examples show ?thesis by blast
qed

theorem formatElapsed_meets_spec_witness:
  "(0::int) \<le> 3725000 \<and>
   formatElapsed (Finite 3725000) = spec_formatElapsed 3725000 \<and>
   spec_formatElapsed 3725000 = ''1h 2m 5s''"
proof -
  have nonneg: "(0::int) \<le> 3725000" by simp
  have "formatElapsed (Finite 3725000) = spec_formatElapsed 3725000"
    using formatElapsed_meets_spec [of 3725000] nonneg by blast
  moreover have "spec_formatElapsed 3725000 = ''1h 2m 5s''"
    by (simp add: spec_formatElapsed_def number_eval)
  ultimately show ?thesis using nonneg by blast
qed

section \<open>The timer object: reads, writes and key order\<close>

lemmas handler_eval = lookup_def assign_def delete_def object_keys_def runningCount_def
  object_prototype_names_def quoted_def index_value_def digit_value_def is_digit_def

lemmas label_eval = requiredLabelSchema_def label_char_def

lemma lookup_own: "map_of timers name = Some e \<Longrightarrow> lookup timers name = Some e"
  by (simp add: lookup_def)

lemma lookup_None_iff:
  "lookup timers name = None \<longleftrightarrow> map_of timers name = None \<and> name \<notin> set object_prototype_names"
  by (simp add: lookup_def split: option.splits)

lemma lookup_None_not_own: "lookup timers name = None \<Longrightarrow> name \<notin> fst ` set timers"
  by (simp add: lookup_None_iff map_of_eq_None_iff)

lemma assign_fresh: "lookup timers name = None \<Longrightarrow> assign timers name v = timers @ [(name, v)]"
  using lookup_None_not_own [of timers name] by (simp add: assign_def)

lemma lookup_append_new: "lookup (timers @ [(name, v)]) name = (case map_of timers name of Some e \<Rightarrow> Some e | None \<Rightarrow> Some v)"
  by (simp add: lookup_def map_add_def split: option.splits)

lemma map_of_delete: "map_of (delete timers name) k = (if k = name then None else map_of timers k)"
  by (induction timers) (auto simp: delete_def)

text \<open>
  \<^verbatim>\<open>Object.keys\<close> lists every own key once; it is the creation order when no key is an
  array index.
\<close>

lemma set_object_keys: "set (object_keys timers) = fst ` set timers"
  by (auto simp: object_keys_def Let_def)

lemma length_object_keys: "length (object_keys timers) = length timers"
proof -
  have "length (object_keys timers) =
      length (filter is_array_index (map fst timers))
      + length (filter (\<lambda>k. \<not> is_array_index k) (map fst timers))"
    by (simp add: object_keys_def Let_def)
  also have "\<dots> = length (map fst timers)"
    by (rule sum_length_filter_compl)
  finally show ?thesis by simp
qed

lemma object_keys_insertion_order:
  "list_all (\<lambda>k. \<not> is_array_index k) (map fst timers) \<Longrightarrow> object_keys timers = map fst timers"
  by (simp add: object_keys_def Let_def list_all_iff filter_empty_conv[THEN iffD2] filter_id_conv[THEN iffD2])

section \<open>The invariant of the timer object\<close>

text \<open>
  The object starts empty, and every handler keeps \<open>registry_ok\<close>, whether it returns
  or throws.
\<close>

lemma registry_ok_Nil: "registry_ok []"
  by (simp add: registry_ok_def)

lemma registry_ok_delete: "registry_ok timers \<Longrightarrow> registry_ok (delete timers name)"
  by (auto simp: registry_ok_def delete_def list_all_iff distinct_map_filter)

lemma registry_ok_new:
  "registry_ok timers \<Longrightarrow> lookup timers name = None \<Longrightarrow> registry_ok (timers @ [(name, v)])"
  using lookup_None_not_own [of timers name]
  by (auto simp: registry_ok_def lookup_None_iff list_all_iff)

lemma registry_ok_own_not_inherited:
  "registry_ok timers \<Longrightarrow> map_of timers name = Some e \<Longrightarrow> name \<notin> set object_prototype_names"
  by (auto simp: registry_ok_def list_all_iff dest!: map_of_SomeD)

section \<open>What the handlers return\<close>

lemma start_timer_new:
  assumes "lookup timers (resolveLabel label) = None"
  shows "start_timer localeTime now timers label =
    (Inr (''Timer '' @ quoted (resolveLabel label) @ '' started at '' @ localeTime now @ ''.''
          @ (if 3 \<le> length timers + 1
             then ''\<newline>\<newline>Heads up: you now have '' @ number_text (int (length timers + 1))
                  @ '' timers running (''
                  @ join '', '' (map quoted (object_keys (timers @ [(resolveLabel label, Timer now)])))
                  @ ''). Did you forget to stop one?''
             else [])),
     timers @ [(resolveLabel label, Timer now)])"
proof -
  let ?name = "resolveLabel label"
  have fresh: "assign timers ?name (Timer now) = timers @ [(?name, Timer now)]"
    using assms by (rule assign_fresh)
  have absent: "map_of timers ?name = None"
    using assms by (simp add: lookup_None_iff)
  have readback: "lookup (timers @ [(?name, Timer now)]) ?name = Some (Timer now)"
    by (simp add: lookup_append_new absent)
  have count: "runningCount (timers @ [(?name, Timer now)]) = length timers + 1"
    by (simp add: runningCount_def length_object_keys)
  show ?thesis
    unfolding start_timer_def Let_def assms fresh readback count
    by simp
qed

lemma start_timer_running:
  assumes "lookup timers (resolveLabel label) = Some (Timer t)"
  shows "start_timer localeTime now timers label =
    (Inr (''Timer '' @ quoted (resolveLabel label) @ '' is already running (started at ''
          @ localeTime t @ '').''), timers)"
  unfolding start_timer_def Let_def assms by simp

lemma start_timer_inherited:
  assumes "lookup timers (resolveLabel label) = Some (Builtin k)"
  shows "start_timer localeTime now timers label = (Inl TypeError, timers)"
  unfolding start_timer_def Let_def assms by simp

lemma list_line_timer:
  "map_of timers name = Some (Timer t) \<Longrightarrow>
   list_line localeTime now timers name = Inr (timer_line localeTime now name t)"
  by (simp add: list_line_def lookup_own timer_line_def)

lemma timers_only_own:
  assumes "timers_only timers" and "name \<in> fst ` set timers"
  shows "\<exists>t. map_of timers name = Some (Timer t) \<and> (name, Timer t) \<in> set timers"
proof -
  from assms(2) obtain e where e: "map_of timers name = Some e"
    by (metis map_of_eq_None_iff not_Some_eq)
  then have mem: "(name, e) \<in> set timers" by (rule map_of_SomeD)
  with assms(1) have "startTime e \<noteq> None"
    by (auto simp: timers_only_def list_all_iff)
  then obtain t where "e = Timer t" by (cases e) simp_all
  with e mem show ?thesis by blast
qed

lemma map_throwing_lines:
  assumes "timers_only timers" and "set names \<subseteq> fst ` set timers"
  shows "\<exists>lines. map_throwing (list_line localeTime now timers) names = Inr lines
     \<and> list_all2 (\<lambda>name line. \<exists>t. map_of timers name = Some (Timer t)
                       \<and> line = timer_line localeTime now name t) names lines"
  using assms(2)
proof (induction names)
  case Nil
  then show ?case by simp
next
  case (Cons name names)
  then obtain lines where rest: "map_throwing (list_line localeTime now timers) names = Inr lines"
    and all: "list_all2 (\<lambda>name line. \<exists>t. map_of timers name = Some (Timer t)
                       \<and> line = timer_line localeTime now name t) names lines"
    by auto
  from Cons.prems have "name \<in> fst ` set timers" by simp
  with assms(1) obtain t where t: "map_of timers name = Some (Timer t)"
    and mem: "(name, Timer t) \<in> set timers"
    using timers_only_own by blast
  have "map_throwing (list_line localeTime now timers) (name # names)
      = Inr (timer_line localeTime now name t # lines)"
    by (simp add: list_line_timer [OF t] rest)
  moreover have "list_all2 (\<lambda>name line. \<exists>t. map_of timers name = Some (Timer t)
                       \<and> line = timer_line localeTime now name t)
        (name # names) (timer_line localeTime now name t # lines)"
    using all t by auto
  ultimately show ?case by blast
qed

lemma registry_ok_start_timer:
  "registry_ok timers \<Longrightarrow> registry_ok (snd (start_timer localeTime now timers label))"
proof (cases "lookup timers (resolveLabel label)")
  case None
  then show "registry_ok timers \<Longrightarrow> ?thesis"
    by (simp add: start_timer_new registry_ok_new)
next
  case (Some e)
  then show "registry_ok timers \<Longrightarrow> ?thesis"
    by (cases e) (simp_all add: start_timer_running start_timer_inherited)
qed

lemma registry_ok_current_timer:
  "registry_ok timers \<Longrightarrow> registry_ok (snd (current_timer localeTime now timers label))"
  by (simp add: current_timer_def Let_def split: option.splits)

lemma registry_ok_stop_timer:
  "registry_ok timers \<Longrightarrow> registry_ok (snd (stop_timer localeTime now timers label))"
  by (simp add: stop_timer_def Let_def registry_ok_delete split: option.splits)

lemma registry_ok_list_timers:
  "registry_ok timers \<Longrightarrow> registry_ok (snd (list_timers localeTime now timers))"
  by (simp add: list_timers_def Let_def split: sum.splits)

lemma registry_ok_stop_each:
  "registry_ok timers \<Longrightarrow> registry_ok (snd (stop_each localeTime endTime timers names))"
proof (induction names arbitrary: timers)
  case Nil
  then show ?case by simp
next
  case (Cons name names)
  have "registry_ok (snd (stop_each localeTime endTime (delete timers name) names))"
    using Cons.prems by (intro Cons.IH registry_ok_delete)
  then show ?case
    using Cons.prems by (auto simp: Let_def split: option.splits prod.splits sum.splits)
qed

lemma registry_ok_stop_all_timers:
  "registry_ok timers \<Longrightarrow> registry_ok (snd (stop_all_timers localeTime now timers))"
  using registry_ok_stop_each [of timers localeTime now "object_keys timers"]
  by (auto simp: stop_all_timers_def Let_def split: prod.splits sum.splits)

lemma registry_ok_rename_timer:
  "registry_ok timers \<Longrightarrow> registry_ok (snd (rename_timer timers from to))"
  by (simp add: rename_timer_def Let_def assign_fresh registry_ok_new registry_ok_delete
      split: option.splits)

lemma registry_ok_switch_timer:
  assumes "registry_ok timers"
  shows "registry_ok (snd (switch_timer localeTime now timers stop start))"
proof -
  define timers' where "timers' =
    (case lookup timers (resolveLabel stop) of
       Some e \<Rightarrow> delete timers (resolveLabel stop) | None \<Rightarrow> timers)"
  have ok': "registry_ok timers'"
    using assms by (simp add: timers'_def registry_ok_delete split: option.splits)
  have "snd (switch_timer localeTime now timers stop start) =
      (case lookup timers' start of
         Some e \<Rightarrow> timers' | None \<Rightarrow> assign timers' start (Timer now))"
    by (simp add: switch_timer_def Let_def timers'_def split: option.splits)
  then show ?thesis
    using ok' by (simp add: assign_fresh registry_ok_new split: option.splits)
qed

text \<open>
  A label that no read finds, neither as an own key nor on the prototype, behaves as the
  specification says: a second \<^verbatim>\<open>start_timer\<close> changes nothing and reports the first
  start time, \<^verbatim>\<open>rename_timer\<close> moves the entry with its value, and
  \<^verbatim>\<open>switch_timer\<close> stops one timer and starts the other at the same \<open>now\<close>.
\<close>

lemma start_timer_twice:
  assumes "lookup timers (resolveLabel label) = None"
  shows "snd (start_timer localeTime t1 timers label) = timers @ [(resolveLabel label, Timer t1)]
    \<and> start_timer localeTime t2 (snd (start_timer localeTime t1 timers label)) label =
       (Inr (''Timer '' @ quoted (resolveLabel label) @ '' is already running (started at ''
             @ localeTime t1 @ '').''),
        timers @ [(resolveLabel label, Timer t1)])"
proof -
  have first: "snd (start_timer localeTime t1 timers label) = timers @ [(resolveLabel label, Timer t1)]"
    using assms by (simp add: start_timer_new)
  have "map_of timers (resolveLabel label) = None" using assms by (simp add: lookup_None_iff)
  then have "lookup (timers @ [(resolveLabel label, Timer t1)]) (resolveLabel label) = Some (Timer t1)"
    by (simp add: lookup_append_new)
  then show ?thesis unfolding first by (simp add: start_timer_running)
qed

lemma rename_timer_moves:
  assumes "map_of timers (resolveLabel from) = Some e" and "lookup timers to = None"
  shows "rename_timer timers from to =
      (Inr (''Timer renamed from '' @ quoted (resolveLabel from) @ '' to '' @ quoted to @ ''.''),
       delete timers (resolveLabel from) @ [(to, e)])"
proof -
  have "to \<noteq> resolveLabel from" using assms by (auto simp: lookup_None_iff)
  then have "delete (timers @ [(to, e)]) (resolveLabel from) = delete timers (resolveLabel from) @ [(to, e)]"
    by (simp add: delete_def)
  then show ?thesis
    using assms by (simp add: rename_timer_def Let_def lookup_own assign_fresh)
qed

lemma switch_timer_fresh_target:
  assumes "map_of timers L1 = Some e" and "resolveLabel stop = L1"
    and "lookup timers L2 = None"
  shows "switch_timer localeTime now timers stop L2 =
      (Inr (''Stopped '' @ quoted L1 @ '' ('' @ formatElapsed (minus_startTime now (startTime e))
            @ '').\<newline>'' @ ''Started '' @ quoted L2 @ '' at '' @ localeTime now @ ''.''),
       delete timers L1 @ [(L2, Timer now)])"
proof -
  have found: "lookup timers L1 = Some e" using assms(1) by (rule lookup_own)
  have "lookup (delete timers L1) L2 = None"
    using assms(3) by (simp add: lookup_None_iff map_of_delete)
  then show ?thesis
    unfolding switch_timer_def Let_def assms(2) found by (simp add: assign_fresh)
qed

section \<open>The handlers: the claims\<close>

text \<open>
  C1 says that every handler, called with labels that match the pattern, returns a text
  and never throws, in every state of the object. The source does not meet it.
  \<open>constructor\<close> matches the pattern, and a read \<^verbatim>\<open>timers["constructor"]\<close> finds
  the built-in on \<^verbatim>\<open>Object.prototype\<close>, which is truthy and has no
  \<^verbatim>\<open>startTime\<close>: \<^verbatim>\<open>start_timer\<close>, \<^verbatim>\<open>current_timer\<close>, \<^verbatim>\<open>stop_timer\<close> and
  \<^verbatim>\<open>switch_timer\<close> throw a TypeError on the empty object. \<^verbatim>\<open>rename_timer\<close> from
  \<open>constructor\<close> stores the built-in under the new label, after which
  \<^verbatim>\<open>list_timers\<close> and \<^verbatim>\<open>stop_all_timers\<close> throw as well.
\<close>

theorem handlers_throw_on_inherited_label:
  "labelSchema (Some ''constructor'')
   \<and> start_timer localeTime now [] (Some ''constructor'') = (Inl TypeError, [])
   \<and> current_timer localeTime now [] (Some ''constructor'') = (Inl TypeError, [])
   \<and> stop_timer localeTime now [] (Some ''constructor'') = (Inl TypeError, [])
   \<and> switch_timer localeTime now [] None ''constructor'' = (Inl TypeError, [])
   \<and> rename_timer [] (Some ''constructor'') ''x'' =
       (Inr (''Timer renamed from '' @ quoted ''constructor'' @ '' to '' @ quoted ''x'' @ ''.''),
        [(''x'', Builtin ''constructor'')])
   \<and> list_timers localeTime now [(''x'', Builtin ''constructor'')] =
       (Inl TypeError, [(''x'', Builtin ''constructor'')])
   \<and> stop_all_timers localeTime now [(''x'', Builtin ''constructor'')] =
       (Inl TypeError, [(''x'', Builtin ''constructor'')])"
proof -
  have valid: "labelSchema (Some ''constructor'')"
    by (simp add: label_eval)
  have found: "lookup [] ''constructor'' = Some (Builtin ''constructor'')"
    by (simp add: lookup_def object_prototype_names_def)
  have start: "start_timer localeTime now [] (Some ''constructor'') = (Inl TypeError, [])"
    by (simp add: start_timer_def found)
  have current: "current_timer localeTime now [] (Some ''constructor'') = (Inl TypeError, [])"
    by (simp add: current_timer_def found)
  have stop: "stop_timer localeTime now [] (Some ''constructor'') = (Inl TypeError, [])"
    by (simp add: stop_timer_def found delete_def)
  have switch: "switch_timer localeTime now [] None ''constructor'' = (Inl TypeError, [])"
    by (simp add: switch_timer_def found lookup_def object_prototype_names_def)
  have rename: "rename_timer [] (Some ''constructor'') ''x'' =
       (Inr (''Timer renamed from '' @ quoted ''constructor'' @ '' to '' @ quoted ''x'' @ ''.''),
        [(''x'', Builtin ''constructor'')])"
    by (simp add: rename_timer_def Let_def found lookup_def object_prototype_names_def
        assign_def delete_def)
  have keys: "object_keys [(''x'', Builtin ''constructor'')] = [''x'']"
    by (simp add: handler_eval)
  have foundx: "lookup [(''x'', Builtin ''constructor'')] ''x'' = Some (Builtin ''constructor'')"
    by (simp add: lookup_def)
  have list: "list_timers localeTime now [(''x'', Builtin ''constructor'')] =
       (Inl TypeError, [(''x'', Builtin ''constructor'')])"
    by (simp add: list_timers_def keys list_line_def foundx)
  have stop_all: "stop_all_timers localeTime now [(''x'', Builtin ''constructor'')] =
       (Inl TypeError, [(''x'', Builtin ''constructor'')])"
    by (simp add: stop_all_timers_def keys foundx)
  from valid start current stop switch rename list stop_all show ?thesis by blast
qed

text \<open>
  C4, as the claim states it, fails: \<^verbatim>\<open>Object.keys\<close> puts the labels that are array
  indices first. Start \<open>b\<close>, then \<open>1\<close>; the listing has \<open>1\<close> before \<open>b\<close>, which is
  not the order of insertion. (The clock text here is the number of milliseconds.)
\<close>

theorem list_timers_insertion_order_counterexample:
  "start_timer number_text 1000 [] (Some ''b'') =
     (Inr (''Timer '' @ quoted ''b'' @ '' started at 1000.''), [(''b'', Timer 1000)])
   \<and> start_timer number_text 2000 [(''b'', Timer 1000)] (Some ''1'') =
     (Inr (''Timer '' @ quoted ''1'' @ '' started at 2000.''),
      [(''b'', Timer 1000), (''1'', Timer 2000)])
   \<and> list_timers number_text 5000 [(''b'', Timer 1000), (''1'', Timer 2000)] =
     (Inr (''Running timers (2):\<newline>''
           @ ''- '' @ quoted ''1'' @ ''  started 2000  (3s)\<newline>''
           @ ''- '' @ quoted ''b'' @ ''  started 1000  (4s)''),
      [(''b'', Timer 1000), (''1'', Timer 2000)])
   \<and> fst (list_timers number_text 5000 [(''b'', Timer 1000), (''1'', Timer 2000)]) \<noteq>
     Inr (''Running timers (2):\<newline>''
          @ join ''\<newline>'' [timer_line number_text 5000 ''b'' 1000,
                                timer_line number_text 5000 ''1'' 2000])"
proof -
  have one: "start_timer number_text 1000 [] (Some ''b'') =
     (Inr (''Timer '' @ quoted ''b'' @ '' started at 1000.''), [(''b'', Timer 1000)])"
    by (simp add: start_timer_def handler_eval number_eval)
  have two: "start_timer number_text 2000 [(''b'', Timer 1000)] (Some ''1'') =
     (Inr (''Timer '' @ quoted ''1'' @ '' started at 2000.''),
      [(''b'', Timer 1000), (''1'', Timer 2000)])"
    by (simp add: start_timer_def handler_eval number_eval)
  have three: "list_timers number_text 5000 [(''b'', Timer 1000), (''1'', Timer 2000)] =
     (Inr (''Running timers (2):\<newline>''
           @ ''- '' @ quoted ''1'' @ ''  started 2000  (3s)\<newline>''
           @ ''- '' @ quoted ''b'' @ ''  started 1000  (4s)''),
      [(''b'', Timer 1000), (''1'', Timer 2000)])"
    by (simp add: list_timers_def list_line_def handler_eval number_eval)
  have four: "fst (list_timers number_text 5000 [(''b'', Timer 1000), (''1'', Timer 2000)]) \<noteq>
     Inr (''Running timers (2):\<newline>''
          @ join ''\<newline>'' [timer_line number_text 5000 ''b'' 1000,
                                timer_line number_text 5000 ''1'' 2000])"
    unfolding three by (simp add: timer_line_def quoted_def number_eval)
  from one two three four show ?thesis by blast
qed

text \<open>
  C4, amended: for every object that is not empty and whose entries are all timers,
  \<^verbatim>\<open>list_timers\<close> returns the header and one line per timer, in the order of
  \<^verbatim>\<open>Object.keys\<close> (the labels that are array indices in ascending numeric order,
  then the other labels in insertion order; so insertion order when no label is an array
  index), every line's elapsed time computed from the one \<open>now\<close> of the call, and the
  object is unchanged.
\<close>

theorem list_timers_key_order:
  assumes nonempty: "timers \<noteq> []" and only: "timers_only timers"
  shows "(\<exists>lines.
       list_timers localeTime now timers =
         (Inr (''Running timers ('' @ number_text (int (length timers)) @ ''):\<newline>''
               @ join ''\<newline>'' lines), timers)
       \<and> length lines = length timers
       \<and> list_all2 (\<lambda>name line. \<exists>t. map_of timers name = Some (Timer t)
                         \<and> line = timer_line localeTime now name t)
            (object_keys timers) lines)
    \<and> object_keys timers =
        sort_key index_value (filter is_array_index (map fst timers))
        @ filter (\<lambda>k. \<not> is_array_index k) (map fst timers)
    \<and> (if list_all (\<lambda>k. \<not> is_array_index k) (map fst timers)
        then object_keys timers = map fst timers else True)"
proof -
  have "set (object_keys timers) \<subseteq> fst ` set timers" by (simp add: set_object_keys)
  with only obtain lines
    where run: "map_throwing (list_line localeTime now timers) (object_keys timers) = Inr lines"
    and all: "list_all2 (\<lambda>name line. \<exists>t. map_of timers name = Some (Timer t)
                       \<and> line = timer_line localeTime now name t) (object_keys timers) lines"
    using map_throwing_lines by blast
  have len: "length lines = length timers"
    using all by (simp add: list_all2_lengthD [symmetric] length_object_keys)
  have "object_keys timers \<noteq> []"
    using nonempty length_object_keys [of timers] by (metis length_0_conv)
  then have "list_timers localeTime now timers =
         (Inr (''Running timers ('' @ number_text (int (length timers)) @ ''):\<newline>''
               @ join ''\<newline>'' lines), timers)"
    by (simp add: list_timers_def Let_def run length_object_keys)
  with len all have first: "\<exists>lines.
       list_timers localeTime now timers =
         (Inr (''Running timers ('' @ number_text (int (length timers)) @ ''):\<newline>''
               @ join ''\<newline>'' lines), timers)
       \<and> length lines = length timers
       \<and> list_all2 (\<lambda>name line. \<exists>t. map_of timers name = Some (Timer t)
                         \<and> line = timer_line localeTime now name t)
            (object_keys timers) lines"
    by blast
  have second: "object_keys timers =
        sort_key index_value (filter is_array_index (map fst timers))
        @ filter (\<lambda>k. \<not> is_array_index k) (map fst timers)"
    by (simp add: object_keys_def Let_def)
  have third: "if list_all (\<lambda>k. \<not> is_array_index k) (map fst timers)
        then object_keys timers = map fst timers else True"
    by (simp add: object_keys_insertion_order)
  from first second third show ?thesis by blast
qed

theorem list_timers_key_order_witness:
  "[(''b'', Timer 1000), (''1'', Timer 2000)] \<noteq> []
   \<and> timers_only [(''b'', Timer 1000), (''1'', Timer 2000)]
   \<and> object_keys [(''b'', Timer 1000), (''1'', Timer 2000)] = [''1'', ''b'']
   \<and> (\<exists>lines.
        list_timers number_text 5000 [(''b'', Timer 1000), (''1'', Timer 2000)] =
          (Inr (''Running timers (2):\<newline>'' @ join ''\<newline>'' lines),
           [(''b'', Timer 1000), (''1'', Timer 2000)])
        \<and> length lines = 2)"
proof -
  have nonempty: "[(''b'', Timer 1000), (''1'', Timer 2000)] \<noteq> []" by simp
  have only: "timers_only [(''b'', Timer 1000), (''1'', Timer 2000)]"
    by (simp add: timers_only_def)
  have keys: "object_keys [(''b'', Timer 1000), (''1'', Timer 2000)] = [''1'', ''b'']"
    by (simp add: handler_eval)
  have two: "number_text (int (length [(''b'', Timer 1000), (''1'', Timer 2000)])) = ''2''"
    by (simp add: number_eval)
  from list_timers_key_order [OF nonempty only, of number_text 5000]
  obtain lines where
    "list_timers number_text 5000 [(''b'', Timer 1000), (''1'', Timer 2000)] =
       (Inr (''Running timers ('' @ number_text (int (length [(''b'', Timer 1000), (''1'', Timer 2000)]))
             @ ''):\<newline>'' @ join ''\<newline>'' lines),
        [(''b'', Timer 1000), (''1'', Timer 2000)])"
    and "length lines = length [(''b'', Timer 1000), (''1'', Timer 2000)]"
    by blast
  then have "list_timers number_text 5000 [(''b'', Timer 1000), (''1'', Timer 2000)] =
          (Inr (''Running timers (2):\<newline>'' @ join ''\<newline>'' lines),
           [(''b'', Timer 1000), (''1'', Timer 2000)])
        \<and> length lines = 2"
    unfolding two by simp
  with nonempty only keys show ?thesis by blast
qed

text \<open>
  C5 says that \<^verbatim>\<open>switch_timer\<close> with a running \<open>stop\<close> label and a \<open>start\<close> label
  that is not running leaves the first absent and the second present, started at the
  call's timestamp. The source does not meet it for the \<open>start\<close> label
  \<open>constructor\<close>: it is not in the object, the read finds the built-in on the
  prototype, and the handler throws after it has deleted the stopped timer. Lemma
  \<open>switch_timer_fresh_target\<close> is the claim for the labels that no read finds.
\<close>

theorem switch_timer_inherited_target:
  "requiredLabelSchema ''constructor''
   \<and> map_of [(''a'', Timer 1000)] ''a'' = Some (Timer 1000)
   \<and> map_of [(''a'', Timer 1000)] ''constructor'' = None
   \<and> switch_timer localeTime 5000 [(''a'', Timer 1000)] (Some ''a'') ''constructor'' =
       (Inl TypeError, [])"
proof -
  have valid: "requiredLabelSchema ''constructor''"
    by (simp add: label_eval)
  have founda: "lookup [(''a'', Timer 1000)] ''a'' = Some (Timer 1000)"
    by (simp add: lookup_def)
  have found: "lookup [] ''constructor'' = Some (Builtin ''constructor'')"
    by (simp add: lookup_def object_prototype_names_def)
  have "switch_timer localeTime 5000 [(''a'', Timer 1000)] (Some ''a'') ''constructor'' =
       (Inl TypeError, [])"
    by (simp add: switch_timer_def founda delete_def found)
  with valid show ?thesis by simp
qed

text \<open>
  C6 says that \<^verbatim>\<open>rename_timer\<close> from a running label to a valid label that is not in
  the object moves the entry. The source does not meet it for the target
  \<open>constructor\<close>: it is valid and not in the object, yet the rename is refused as
  "already running" and the timer keeps its old label. Lemma \<open>rename_timer_moves\<close> is
  the claim for the labels that no read finds.
\<close>

theorem rename_timer_inherited_target:
  "requiredLabelSchema ''constructor''
   \<and> map_of [(''a'', Timer 1000)] ''a'' = Some (Timer 1000)
   \<and> map_of [(''a'', Timer 1000)] ''constructor'' = None
   \<and> rename_timer [(''a'', Timer 1000)] (Some ''a'') ''constructor'' =
       (Inr (''A timer named '' @ quoted ''constructor''
             @ '' is already running. Stop it first or choose a different name.''),
        [(''a'', Timer 1000)])
   \<and> current_timer localeTime 5000 [(''a'', Timer 1000)] (Some ''a'') =
       (Inr (''Timer '' @ quoted ''a'' @ '' is running.\<newline>Started:  '' @ localeTime 1000
             @ ''\<newline>Elapsed:  4s''),
        [(''a'', Timer 1000)])"
proof -
  have valid: "requiredLabelSchema ''constructor''"
    by (simp add: label_eval)
  have founda: "lookup [(''a'', Timer 1000)] ''a'' = Some (Timer 1000)"
    by (simp add: lookup_def)
  have found: "lookup [(''a'', Timer 1000)] ''constructor'' = Some (Builtin ''constructor'')"
    by (simp add: lookup_def object_prototype_names_def)
  have rename: "rename_timer [(''a'', Timer 1000)] (Some ''a'') ''constructor'' =
       (Inr (''A timer named '' @ quoted ''constructor''
             @ '' is already running. Stop it first or choose a different name.''),
        [(''a'', Timer 1000)])"
    by (simp add: rename_timer_def founda found)
  have current: "current_timer localeTime 5000 [(''a'', Timer 1000)] (Some ''a'') =
       (Inr (''Timer '' @ quoted ''a'' @ '' is running.\<newline>Started:  '' @ localeTime 1000
             @ ''\<newline>Elapsed:  4s''),
        [(''a'', Timer 1000)])"
    by (simp add: current_timer_def founda number_eval)
  from valid rename current show ?thesis by simp
qed

text \<open>
  C7: whenever \<^verbatim>\<open>rename_timer\<close> is called with a target label that is a key of the
  object, it returns a message that refuses the rename (that the source label is not
  running, or else that the target is already running) and the object is unchanged.
\<close>

theorem rename_timer_existing_target:
  assumes "to \<in> fst ` set timers"
  shows "rename_timer timers from to =
    (Inr (if lookup timers (resolveLabel from) = None
          then ''No timer named '' @ quoted (resolveLabel from) @ '' is running.''
          else ''A timer named '' @ quoted to
               @ '' is already running. Stop it first or choose a different name.''),
     timers)"
proof -
  from assms obtain e where "map_of timers to = Some e"
    by (metis map_of_eq_None_iff not_Some_eq)
  then have "lookup timers to = Some e" by (rule lookup_own)
  then show ?thesis
    by (simp add: rename_timer_def Let_def split: option.splits)
qed

theorem rename_timer_existing_target_witness:
  "''b'' \<in> fst ` set [(''a'', Timer 1000), (''b'', Timer 2000)]
   \<and> rename_timer [(''a'', Timer 1000), (''b'', Timer 2000)] (Some ''a'') ''b'' =
       (Inr (''A timer named '' @ quoted ''b''
             @ '' is already running. Stop it first or choose a different name.''),
        [(''a'', Timer 1000), (''b'', Timer 2000)])"
proof -
  have target: "''b'' \<in> fst ` set [(''a'', Timer 1000), (''b'', Timer 2000)]" by simp
  have source: "lookup [(''a'', Timer 1000), (''b'', Timer 2000)] (resolveLabel (Some ''a'')) \<noteq> None"
    by (simp add: lookup_def)
  show ?thesis
    using rename_timer_existing_target [OF target, of "Some ''a''"] source target by simp
qed

text \<open>
  C8 says that for every label two calls of \<^verbatim>\<open>start_timer\<close> in a row leave exactly
  one entry, with the first call's start time, the second call reporting "already
  running". The source does not meet it for the label \<open>constructor\<close>: both calls throw
  and the object stays empty. Lemma \<open>start_timer_twice\<close> is the claim for the labels
  that no read finds.
\<close>

theorem start_timer_twice_inherited_label:
  "labelSchema (Some ''constructor'')
   \<and> start_timer localeTime t1 [] (Some ''constructor'') = (Inl TypeError, [])
   \<and> start_timer localeTime t2 (snd (start_timer localeTime t1 [] (Some ''constructor'')))
        (Some ''constructor'') = (Inl TypeError, [])"
proof -
  have valid: "labelSchema (Some ''constructor'')"
    by (simp add: label_eval)
  have found: "lookup [] ''constructor'' = Some (Builtin ''constructor'')"
    by (simp add: lookup_def object_prototype_names_def)
  have start: "start_timer localeTime t [] (Some ''constructor'') = (Inl TypeError, [])" for t
    by (simp add: start_timer_def found)
  from valid start show ?thesis by simp
qed

text \<open>
  C9: a call of \<^verbatim>\<open>start_timer\<close> that inserts a new entry returns the start message,
  followed by the warning exactly when the object then has at least 3 entries; the
  warning lists the keys of the object, which are the labels running after the insertion.
  Starting \<open>a\<close>, \<open>b\<close>, \<open>c\<close> from the empty object gives the warning on the third call
  only, listing \<open>a\<close>, \<open>b\<close>, \<open>c\<close>.
\<close>

theorem start_timer_warning:
  "(lookup timers (resolveLabel label) = None \<longrightarrow>
      start_timer localeTime now timers label =
        (Inr (''Timer '' @ quoted (resolveLabel label) @ '' started at '' @ localeTime now @ ''.''
              @ (if 3 \<le> length timers + 1
                 then ''\<newline>\<newline>Heads up: you now have '' @ number_text (int (length timers + 1))
                      @ '' timers running (''
                      @ join '', '' (map quoted (object_keys (timers @ [(resolveLabel label, Timer now)])))
                      @ ''). Did you forget to stop one?''
                 else [])),
         timers @ [(resolveLabel label, Timer now)])
      \<and> set (object_keys (timers @ [(resolveLabel label, Timer now)]))
          = insert (resolveLabel label) (fst ` set timers))
   \<and> start_timer localeTime t1 [] (Some ''a'') =
        (Inr (''Timer '' @ quoted ''a'' @ '' started at '' @ localeTime t1 @ ''.''),
         [(''a'', Timer t1)])
   \<and> start_timer localeTime t2 [(''a'', Timer t1)] (Some ''b'') =
        (Inr (''Timer '' @ quoted ''b'' @ '' started at '' @ localeTime t2 @ ''.''),
         [(''a'', Timer t1), (''b'', Timer t2)])
   \<and> start_timer localeTime t3 [(''a'', Timer t1), (''b'', Timer t2)] (Some ''c'') =
        (Inr (''Timer '' @ quoted ''c'' @ '' started at '' @ localeTime t3 @ ''.''
              @ ''\<newline>\<newline>Heads up: you now have 3 timers running (''
              @ quoted ''a'' @ '', '' @ quoted ''b'' @ '', '' @ quoted ''c''
              @ ''). Did you forget to stop one?''),
         [(''a'', Timer t1), (''b'', Timer t2), (''c'', Timer t3)])"
proof -
  have general: "start_timer localeTime now timers label =
        (Inr (''Timer '' @ quoted (resolveLabel label) @ '' started at '' @ localeTime now @ ''.''
              @ (if 3 \<le> length timers + 1
                 then ''\<newline>\<newline>Heads up: you now have '' @ number_text (int (length timers + 1))
                      @ '' timers running (''
                      @ join '', '' (map quoted (object_keys (timers @ [(resolveLabel label, Timer now)])))
                      @ ''). Did you forget to stop one?''
                 else [])),
         timers @ [(resolveLabel label, Timer now)])
      \<and> set (object_keys (timers @ [(resolveLabel label, Timer now)]))
          = insert (resolveLabel label) (fst ` set timers)"
    if "lookup timers (resolveLabel label) = None"
    using that by (simp add: start_timer_new set_object_keys)
  have a: "start_timer localeTime t1 [] (Some ''a'') =
        (Inr (''Timer '' @ quoted ''a'' @ '' started at '' @ localeTime t1 @ ''.''),
         [(''a'', Timer t1)])"
    by (simp add: start_timer_def handler_eval)
  have b: "start_timer localeTime t2 [(''a'', Timer t1)] (Some ''b'') =
        (Inr (''Timer '' @ quoted ''b'' @ '' started at '' @ localeTime t2 @ ''.''),
         [(''a'', Timer t1), (''b'', Timer t2)])"
    by (simp add: start_timer_def handler_eval)
  have c: "start_timer localeTime t3 [(''a'', Timer t1), (''b'', Timer t2)] (Some ''c'') =
        (Inr (''Timer '' @ quoted ''c'' @ '' started at '' @ localeTime t3 @ ''.''
              @ ''\<newline>\<newline>Heads up: you now have 3 timers running (''
              @ quoted ''a'' @ '', '' @ quoted ''b'' @ '', '' @ quoted ''c''
              @ ''). Did you forget to stop one?''),
         [(''a'', Timer t1), (''b'', Timer t2), (''c'', Timer t3)])"
    by (simp add: start_timer_def handler_eval number_eval)
  from general a b c show ?thesis by blast
qed

theorem start_timer_warning_witness:
  "lookup [(''a'', Timer 1000), (''b'', Timer 2000)] (resolveLabel (Some ''c'')) = None
   \<and> start_timer number_text 3000 [(''a'', Timer 1000), (''b'', Timer 2000)] (Some ''c'') =
        (Inr (''Timer '' @ quoted ''c'' @ '' started at 3000.''
              @ ''\<newline>\<newline>Heads up: you now have 3 timers running (''
              @ quoted ''a'' @ '', '' @ quoted ''b'' @ '', '' @ quoted ''c''
              @ ''). Did you forget to stop one?''),
         [(''a'', Timer 1000), (''b'', Timer 2000), (''c'', Timer 3000)])"
proof -
  have fresh: "lookup [(''a'', Timer 1000), (''b'', Timer 2000)] (resolveLabel (Some ''c'')) = None"
    by (simp add: lookup_def object_prototype_names_def)
  have keys: "object_keys [(''a'', Timer 1000), (''b'', Timer 2000), (''c'', Timer 3000)]
      = [''a'', ''b'', ''c'']"
    by (simp add: handler_eval)
  have rendered: "number_text 3000 = ''3000''" "number_text 3 = ''3''"
    by (simp_all add: number_eval)
  show ?thesis
    using start_timer_warning [of "[(''a'', Timer 1000), (''b'', Timer 2000)]" "Some ''c''"
        number_text 3000] fresh
    by (simp add: keys rendered)
qed

text \<open>
  C10: for every label \<open>L\<close> that is a key of the object, \<^verbatim>\<open>switch_timer\<close> with
  \<open>L\<close> as both labels removes \<open>L\<close>, reporting its elapsed time, and inserts it again
  with the call's one \<open>now\<close> as its start time; it is not refused as already running.
\<close>

theorem switch_timer_same_label:
  assumes ok: "registry_ok timers" and own: "map_of timers L = Some e"
    and stop: "resolveLabel stop = L"
  shows "switch_timer localeTime now timers stop L =
      (Inr (''Stopped '' @ quoted L @ '' ('' @ formatElapsed (minus_startTime now (startTime e))
            @ '').\<newline>'' @ ''Started '' @ quoted L @ '' at '' @ localeTime now @ ''.''),
       delete timers L @ [(L, Timer now)])
    \<and> L \<notin> fst ` set (delete timers L)
    \<and> lookup (delete timers L @ [(L, Timer now)]) L = Some (Timer now)"
proof -
  have found: "lookup timers L = Some e" using own by (rule lookup_own)
  have not_inherited: "L \<notin> set object_prototype_names"
    using ok own by (rule registry_ok_own_not_inherited)
  have gone: "map_of (delete timers L) L = None" by (simp add: map_of_delete)
  then have absent: "lookup (delete timers L) L = None"
    using not_inherited by (simp add: lookup_None_iff)
  then have fresh: "assign (delete timers L) L (Timer now) = delete timers L @ [(L, Timer now)]"
    by (rule assign_fresh)
  have "switch_timer localeTime now timers stop L =
      (Inr (''Stopped '' @ quoted L @ '' ('' @ formatElapsed (minus_startTime now (startTime e))
            @ '').\<newline>'' @ ''Started '' @ quoted L @ '' at '' @ localeTime now @ ''.''),
       delete timers L @ [(L, Timer now)])"
    unfolding switch_timer_def Let_def stop found by (simp add: absent fresh)
  moreover have "L \<notin> fst ` set (delete timers L)"
    using gone by (simp add: map_of_eq_None_iff)
  moreover have "lookup (delete timers L @ [(L, Timer now)]) L = Some (Timer now)"
    by (simp add: lookup_append_new gone)
  ultimately show ?thesis by blast
qed

theorem switch_timer_same_label_witness:
  "registry_ok [(''a'', Timer 1000), (''b'', Timer 2000)]
   \<and> map_of [(''a'', Timer 1000), (''b'', Timer 2000)] ''a'' = Some (Timer 1000)
   \<and> resolveLabel (Some ''a'') = ''a''
   \<and> switch_timer number_text 5000 [(''a'', Timer 1000), (''b'', Timer 2000)] (Some ''a'') ''a'' =
       (Inr (''Stopped '' @ quoted ''a'' @ '' (4s).\<newline>Started '' @ quoted ''a'' @ '' at 5000.''),
        [(''b'', Timer 2000), (''a'', Timer 5000)])"
proof -
  have ok: "registry_ok [(''a'', Timer 1000), (''b'', Timer 2000)]"
    by (simp add: registry_ok_def object_prototype_names_def)
  have own: "map_of [(''a'', Timer 1000), (''b'', Timer 2000)] ''a'' = Some (Timer 1000)"
    by simp
  have stop: "resolveLabel (Some ''a'') = ''a''" by simp
  have deleted: "delete [(''a'', Timer 1000), (''b'', Timer 2000)] ''a'' = [(''b'', Timer 2000)]"
    by (simp add: delete_def)
  show ?thesis
    using switch_timer_same_label [OF ok own stop, of number_text 5000] ok
    by (simp add: deleted number_eval)
qed

end
